theory Spec2Isabelle
  imports Main "HOL-Library.Word"
begin

unbundle bit_operations_syntax

section \<open>The HID keyboard of scrcpy: \<^verbatim>\<open>app/src/hid_keyboard.c\<close>\<close>

text \<open>
  A shallow embedding of \<^verbatim>\<open>hid_keyboard.c\<close>. An \<^verbatim>\<open>unsigned char\<close> is an
  8-bit word, SDL's \<^verbatim>\<open>Uint16\<close> and \<^verbatim>\<open>Uint32\<close> are 16-bit and 32-bit words, the
  \<^verbatim>\<open>SDL_Scancode\<close> enum is an \<open>int\<close> (the source asserts that it is not negative). The
  array \<^verbatim>\<open>bool keys[HID_KEYBOARD_KEYS]\<close> is a list of booleans; a heap buffer is a
  list of bytes and the \<^verbatim>\<open>NULL\<close> pointer is \<open>None\<close>. Logging (\<^verbatim>\<open>LOGV\<close>,
  \<^verbatim>\<open>LOGW\<close>) has no effect on the state and is left out.
\<close>

type_synonym u8 = "8 word"
type_synonym u16 = "16 word"
type_synonym u32 = "32 word"

subsection \<open>Constants\<close>

definition HID_KEYBOARD_ACCESSORY_ID :: nat where
  "HID_KEYBOARD_ACCESSORY_ID = 1"

definition HID_KEYBOARD_MODIFIER_NONE :: u8 where
  "HID_KEYBOARD_MODIFIER_NONE = 0x00"

definition HID_KEYBOARD_MODIFIER_LEFT_CONTROL :: u8 where
  "HID_KEYBOARD_MODIFIER_LEFT_CONTROL = push_bit 0 1"

definition HID_KEYBOARD_MODIFIER_LEFT_SHIFT :: u8 where
  "HID_KEYBOARD_MODIFIER_LEFT_SHIFT = push_bit 1 1"

definition HID_KEYBOARD_MODIFIER_LEFT_ALT :: u8 where
  "HID_KEYBOARD_MODIFIER_LEFT_ALT = push_bit 2 1"

definition HID_KEYBOARD_MODIFIER_LEFT_GUI :: u8 where
  "HID_KEYBOARD_MODIFIER_LEFT_GUI = push_bit 3 1"

definition HID_KEYBOARD_MODIFIER_RIGHT_CONTROL :: u8 where
  "HID_KEYBOARD_MODIFIER_RIGHT_CONTROL = push_bit 4 1"

definition HID_KEYBOARD_MODIFIER_RIGHT_SHIFT :: u8 where
  "HID_KEYBOARD_MODIFIER_RIGHT_SHIFT = push_bit 5 1"

definition HID_KEYBOARD_MODIFIER_RIGHT_ALT :: u8 where
  "HID_KEYBOARD_MODIFIER_RIGHT_ALT = push_bit 6 1"

definition HID_KEYBOARD_MODIFIER_RIGHT_GUI :: u8 where
  "HID_KEYBOARD_MODIFIER_RIGHT_GUI = push_bit 7 1"

definition HID_KEYBOARD_INDEX_MODIFIER :: nat where
  "HID_KEYBOARD_INDEX_MODIFIER = 0"

definition HID_KEYBOARD_INDEX_KEYS :: nat where
  "HID_KEYBOARD_INDEX_KEYS = 2"

definition HID_KEYBOARD_MAX_KEYS :: nat where
  "HID_KEYBOARD_MAX_KEYS = 6"

definition HID_KEYBOARD_EVENT_SIZE :: nat where
  "HID_KEYBOARD_EVENT_SIZE = 2 + HID_KEYBOARD_MAX_KEYS"

definition HID_KEYBOARD_RESERVED :: u8 where
  "HID_KEYBOARD_RESERVED = 0x00"

definition HID_KEYBOARD_ERROR_ROLL_OVER :: u8 where
  "HID_KEYBOARD_ERROR_ROLL_OVER = 0x01"

text \<open>
  Modelled from the spec: the macro \<^verbatim>\<open>HID_KEYBOARD_KEYS\<close> of \<^verbatim>\<open>hid_keyboard.h\<close>, the
  size of the key table. The header is not among the sources; the spec gives the table
  the key codes 0..101, and the comments of the report descriptor read
  \<^verbatim>\<open>HID_KEYBOARD_KEYS - 1\<close> as 101.
\<close>

definition HID_KEYBOARD_KEYS :: nat where
  "HID_KEYBOARD_KEYS = 102"

text \<open>
  The constants of SDL2 that the file uses (\<^verbatim>\<open>SDL_events.h\<close>, \<^verbatim>\<open>SDL_keycode.h\<close>,
  \<^verbatim>\<open>SDL_scancode.h\<close>): the two keyboard event types, the modifier flags of
  \<^verbatim>\<open>SDL_Keymod\<close> and the scancodes of the letter A and of the eight modifier keys,
  which are the USB usages 224..231 that the report descriptor names.
\<close>

definition SDL_KEYDOWN :: u32 where
  "SDL_KEYDOWN = 0x300"

definition SDL_KEYUP :: u32 where
  "SDL_KEYUP = 0x301"

definition KMOD_NONE :: u16 where
  "KMOD_NONE = 0x0000"

definition KMOD_LSHIFT :: u16 where
  "KMOD_LSHIFT = 0x0001"

definition KMOD_RSHIFT :: u16 where
  "KMOD_RSHIFT = 0x0002"

definition KMOD_LCTRL :: u16 where
  "KMOD_LCTRL = 0x0040"

definition KMOD_RCTRL :: u16 where
  "KMOD_RCTRL = 0x0080"

definition KMOD_LALT :: u16 where
  "KMOD_LALT = 0x0100"

definition KMOD_RALT :: u16 where
  "KMOD_RALT = 0x0200"

definition KMOD_LGUI :: u16 where
  "KMOD_LGUI = 0x0400"

definition KMOD_RGUI :: u16 where
  "KMOD_RGUI = 0x0800"

definition SDL_SCANCODE_A :: int where
  "SDL_SCANCODE_A = 4"

definition SDL_SCANCODE_LCTRL :: int where
  "SDL_SCANCODE_LCTRL = 224"

definition SDL_SCANCODE_LSHIFT :: int where
  "SDL_SCANCODE_LSHIFT = 225"

definition SDL_SCANCODE_RGUI :: int where
  "SDL_SCANCODE_RGUI = 231"

subsection \<open>Data\<close>

text \<open>
  \<^verbatim>\<open>SDL_KeyboardEvent\<close>, with the fields the file reads: \<^verbatim>\<open>type\<close>, \<^verbatim>\<open>repeat\<close>,
  \<^verbatim>\<open>keysym.scancode\<close> and \<^verbatim>\<open>keysym.mod\<close>.
\<close>

record SDL_KeyboardEvent =
  ev_type :: u32
  ev_repeat :: u8
  keysym_scancode :: int
  keysym_mod :: u16

text \<open>
  \<^verbatim>\<open>struct hid_event\<close> of \<^verbatim>\<open>aoa_hid.h\<close>: the accessory id, the report buffer
  (a pointer, \<open>None\<close> when \<^verbatim>\<open>NULL\<close>) and its size.
\<close>

record hid_event =
  from_accessory_id :: nat
  buffer :: "u8 list option"
  buffer_size :: nat

text \<open>
  Modelled from the spec: \<^verbatim>\<open>struct aoa\<close>, the accessory transport of \<^verbatim>\<open>aoa_hid.c\<close>,
  which is not among the sources. The model keeps what the keyboard hands to it: the
  arguments of every \<^verbatim>\<open>aoa_setup_hid\<close> call (accessory id, descriptor bytes, descriptor
  length), of every \<^verbatim>\<open>aoa_push_hid_event\<close> call and of every \<^verbatim>\<open>aoa_unregister_hid\<close>
  call, in call order.
\<close>

record aoa =
  setup_calls :: "(nat \<times> u8 list \<times> nat) list"
  push_calls :: "hid_event list"
  unregister_calls :: "nat list"

text \<open>
  \<^verbatim>\<open>struct hid_keyboard\<close>: the key table and the transport. The source holds a pointer
  to the transport; the keyboard is its only user here, so the model nests it. The
  \<^verbatim>\<open>key_processor\<close> field only carries the two callbacks.
\<close>

record hid_keyboard =
  keys :: "bool list"
  aoa :: aoa

text \<open>
  What the environment answers during one call: whether \<^verbatim>\<open>malloc\<close> returns a block
  and the indeterminate bytes that block holds, the indeterminate contents of the local
  \<^verbatim>\<open>struct hid_event\<close> of \<^verbatim>\<open>sc_key_processor_process_key\<close>, and the results of the
  transport's calls.
\<close>

record call_env =
  malloc_ok :: bool
  malloc_bytes :: "nat \<Rightarrow> u8"
  stack_hid_event :: hid_event
  push_ok :: bool
  setup_ok :: bool
  unregister_ok :: bool

text \<open>A failed \<^verbatim>\<open>assert\<close> aborts the program.\<close>

datatype error = AssertionFailed

subsection \<open>The report descriptor\<close>

text \<open>
  \<^verbatim>\<open>keyboard_report_desc\<close>, a static constant array; \<^verbatim>\<open>ARRAY_LEN\<close> of it is the
  length of the list.
\<close>

definition keyboard_report_desc :: "u8 list" where
  "keyboard_report_desc =
     [0x05, 0x01,
      0x09, 0x06,
      0xA1, 0x01,
      0x05, 0x07,
      0x19, 0xE0,
      0x29, 0xE7,
      0x15, 0x00,
      0x25, 0x01,
      0x75, 0x01,
      0x95, 0x08,
      0x81, 0x02,
      0x75, 0x08,
      0x95, 0x01,
      0x81, 0x01,
      0x05, 0x08,
      0x19, 0x01,
      0x29, 0x05,
      0x75, 0x01,
      0x95, 0x05,
      0x91, 0x02,
      0x75, 0x03,
      0x95, 0x01,
      0x91, 0x01,
      0x05, 0x07,
      0x19, 0x00,
      0x29, of_nat (HID_KEYBOARD_KEYS - 1),
      0x15, 0x00,
      0x25, of_nat (HID_KEYBOARD_KEYS - 1),
      0x75, 0x08,
      0x95, of_nat HID_KEYBOARD_MAX_KEYS,
      0x81, 0x00,
      0xC0]"

subsection \<open>Building a report\<close>

text \<open>
  \<^verbatim>\<open>malloc(n)\<close>: \<^verbatim>\<open>NULL\<close>, or a fresh block of \<open>n\<close> bytes of indeterminate content.
\<close>

definition malloc :: "call_env \<Rightarrow> nat \<Rightarrow> u8 list option" where
  "malloc env n = (if malloc_ok env then Some (map (malloc_bytes env) [0..<n]) else None)"

text \<open>\<^verbatim>\<open>memset(&buf[off], c, n)\<close>, one byte after the other.\<close>

fun memset :: "u8 list \<Rightarrow> nat \<Rightarrow> u8 \<Rightarrow> nat \<Rightarrow> u8 list" where
  "memset buf off c 0 = buf"
| "memset buf off c (Suc n) = memset (buf[off := c]) (Suc off) c n"

definition create_hid_keyboard_event :: "call_env \<Rightarrow> u8 list option" where
  "create_hid_keyboard_event env =
     (case malloc env HID_KEYBOARD_EVENT_SIZE of
        None \<Rightarrow> None
      | Some buf \<Rightarrow>
          (let buf = buf[HID_KEYBOARD_INDEX_MODIFIER := HID_KEYBOARD_MODIFIER_NONE];
               buf = buf[1 := HID_KEYBOARD_RESERVED];
               buf = memset buf HID_KEYBOARD_INDEX_KEYS 0 HID_KEYBOARD_MAX_KEYS
           in Some buf))"

definition sdl_keymod_to_hid_modifiers :: "u16 \<Rightarrow> u8" where
  "sdl_keymod_to_hid_modifiers kmod =
     (let modifiers = HID_KEYBOARD_MODIFIER_NONE;
          modifiers = (if kmod AND KMOD_LCTRL \<noteq> 0
                       then modifiers OR HID_KEYBOARD_MODIFIER_LEFT_CONTROL else modifiers);
          modifiers = (if kmod AND KMOD_LSHIFT \<noteq> 0
                       then modifiers OR HID_KEYBOARD_MODIFIER_LEFT_SHIFT else modifiers);
          modifiers = (if kmod AND KMOD_LALT \<noteq> 0
                       then modifiers OR HID_KEYBOARD_MODIFIER_LEFT_ALT else modifiers);
          modifiers = (if kmod AND KMOD_LGUI \<noteq> 0
                       then modifiers OR HID_KEYBOARD_MODIFIER_LEFT_GUI else modifiers);
          modifiers = (if kmod AND KMOD_RCTRL \<noteq> 0
                       then modifiers OR HID_KEYBOARD_MODIFIER_RIGHT_CONTROL else modifiers);
          modifiers = (if kmod AND KMOD_RSHIFT \<noteq> 0
                       then modifiers OR HID_KEYBOARD_MODIFIER_RIGHT_SHIFT else modifiers);
          modifiers = (if kmod AND KMOD_RALT \<noteq> 0
                       then modifiers OR HID_KEYBOARD_MODIFIER_RIGHT_ALT else modifiers);
          modifiers = (if kmod AND KMOD_RGUI \<noteq> 0
                       then modifiers OR HID_KEYBOARD_MODIFIER_RIGHT_GUI else modifiers)
      in modifiers)"

text \<open>
  The \<^verbatim>\<open>for\<close> loop of \<^verbatim>\<open>convert_hid_keyboard_event\<close>, from the index \<open>i\<close> on, with
  the counter \<^verbatim>\<open>keys_pressed_count\<close> and the report buffer as its state. The
  \<^verbatim>\<open>return true\<close> inside the loop ends the scan with the buffer as it is then.
\<close>

function pressed_keys_loop :: "bool list \<Rightarrow> nat \<Rightarrow> nat \<Rightarrow> u8 list \<Rightarrow> u8 list" where
  "pressed_keys_loop ks i keys_pressed_count buf =
     (if i < HID_KEYBOARD_KEYS then
        (if ks ! i then
           (if keys_pressed_count \<ge> HID_KEYBOARD_MAX_KEYS then
              memset buf HID_KEYBOARD_INDEX_KEYS HID_KEYBOARD_ERROR_ROLL_OVER
                HID_KEYBOARD_MAX_KEYS
            else
              pressed_keys_loop ks (i + 1) (keys_pressed_count + 1)
                (buf[HID_KEYBOARD_INDEX_KEYS + keys_pressed_count := of_nat i]))
         else pressed_keys_loop ks (i + 1) keys_pressed_count buf)
      else buf)"
  by pat_completeness auto
termination
  by (relation "measure (\<lambda>(ks, i, c, buf). HID_KEYBOARD_KEYS - i)") auto

text \<open>
  \<^verbatim>\<open>convert_hid_keyboard_event\<close> returns its \<^verbatim>\<open>bool\<close> with the keyboard and the
  \<^verbatim>\<open>hid_event\<close> as it leaves them.
\<close>

definition convert_hid_keyboard_event ::
  "call_env \<Rightarrow> hid_keyboard \<Rightarrow> hid_event \<Rightarrow> SDL_KeyboardEvent
     \<Rightarrow> error + (bool \<times> hid_keyboard \<times> hid_event)" where
  "convert_hid_keyboard_event env kb hid_ev event =
     (let hid_ev = hid_ev\<lparr>buffer := create_hid_keyboard_event env\<rparr> in
      case buffer hid_ev of
        None \<Rightarrow> Inr (False, kb, hid_ev)
      | Some buf \<Rightarrow>
          (let hid_ev = hid_ev\<lparr>buffer_size := HID_KEYBOARD_EVENT_SIZE\<rparr>;
               modifiers = sdl_keymod_to_hid_modifiers (keysym_mod event);
               scancode = keysym_scancode event
           in if \<not> scancode \<ge> 0 then Inl AssertionFailed
              else
                (let kb = (if scancode < int HID_KEYBOARD_KEYS
                           then kb\<lparr>keys := (keys kb)[nat scancode :=
                                    (ev_type event = SDL_KEYDOWN)]\<rparr>
                           else kb);
                     buf = buf[HID_KEYBOARD_INDEX_MODIFIER := modifiers];
                     buf = pressed_keys_loop (keys kb) 0 0 buf
                 in Inr (True, kb, hid_ev\<lparr>buffer := Some buf\<rparr>))))"

subsection \<open>Dispatch\<close>

definition scancode_is_modifier :: "int \<Rightarrow> bool" where
  "scancode_is_modifier scancode \<longleftrightarrow>
     scancode \<ge> SDL_SCANCODE_LCTRL \<and> scancode \<le> SDL_SCANCODE_RGUI"

definition hid_keyboard_convert_event ::
  "call_env \<Rightarrow> hid_keyboard \<Rightarrow> hid_event \<Rightarrow> SDL_KeyboardEvent
     \<Rightarrow> error + (bool \<times> hid_keyboard \<times> hid_event)" where
  "hid_keyboard_convert_event env kb hid_ev event =
     (let hid_ev = hid_ev\<lparr>from_accessory_id := HID_KEYBOARD_ACCESSORY_ID\<rparr>;
          scancode = keysym_scancode event
      in if \<not> scancode \<ge> 0 then Inl AssertionFailed
         else if scancode < int HID_KEYBOARD_KEYS \<or> scancode_is_modifier scancode
         then convert_hid_keyboard_event env kb hid_ev event
         else Inr (False, kb, hid_ev))"

text \<open>
  Modelled from the spec: \<^verbatim>\<open>aoa_push_hid_event\<close> of \<^verbatim>\<open>aoa_hid.c\<close> (the spec's
  \<^verbatim>\<open>send_report\<close>), which is not among the sources: the transport receives the event
  and answers success or failure.
\<close>

definition aoa_push_hid_event :: "call_env \<Rightarrow> aoa \<Rightarrow> hid_event \<Rightarrow> bool \<times> aoa" where
  "aoa_push_hid_event env a hid_ev = (push_ok env, a\<lparr>push_calls := push_calls a @ [hid_ev]\<rparr>)"

text \<open>
  \<^verbatim>\<open>sc_key_processor_process_key\<close>; the result of the push only decides a warning.
\<close>

definition sc_key_processor_process_key ::
  "call_env \<Rightarrow> hid_keyboard \<Rightarrow> SDL_KeyboardEvent \<Rightarrow> error + hid_keyboard" where
  "sc_key_processor_process_key env kb event =
     (if ev_repeat event \<noteq> 0 then Inr kb
      else
        case hid_keyboard_convert_event env kb (stack_hid_event env) event of
          Inl e \<Rightarrow> Inl e
        | Inr (ok, kb, hid_ev) \<Rightarrow>
            if ok then
              (let (pushed, a) = aoa_push_hid_event env (aoa kb) hid_ev
               in Inr (kb\<lparr>aoa := a\<rparr>))
            else Inr kb)"

text \<open>The events of a session, one call of the key processor for each, in order.\<close>

fun process_keys ::
  "(call_env \<times> SDL_KeyboardEvent) list \<Rightarrow> hid_keyboard \<Rightarrow> error + hid_keyboard" where
  "process_keys [] kb = Inr kb"
| "process_keys ((env, event) # rest) kb =
     (case sc_key_processor_process_key env kb event of
        Inl e \<Rightarrow> Inl e
      | Inr kb' \<Rightarrow> process_keys rest kb')"

subsection \<open>Lifecycle\<close>

text \<open>
  Modelled from the spec: \<^verbatim>\<open>aoa_setup_hid\<close> and \<^verbatim>\<open>aoa_unregister_hid\<close> of
  \<^verbatim>\<open>aoa_hid.c\<close> (the spec's \<^verbatim>\<open>register_hid_function\<close> and
  \<^verbatim>\<open>unregister_hid_function\<close>), which are not among the sources.
\<close>

definition aoa_setup_hid :: "call_env \<Rightarrow> aoa \<Rightarrow> nat \<Rightarrow> u8 list \<Rightarrow> nat \<Rightarrow> bool \<times> aoa" where
  "aoa_setup_hid env a accessory_id report_desc report_desc_size =
     (setup_ok env,
      a\<lparr>setup_calls := setup_calls a @ [(accessory_id, report_desc, report_desc_size)]\<rparr>)"

definition aoa_unregister_hid :: "call_env \<Rightarrow> aoa \<Rightarrow> nat \<Rightarrow> bool \<times> aoa" where
  "aoa_unregister_hid env a accessory_id =
     (unregister_ok env, a\<lparr>unregister_calls := unregister_calls a @ [accessory_id]\<rparr>)"

definition hid_keyboard_init :: "call_env \<Rightarrow> hid_keyboard \<Rightarrow> aoa \<Rightarrow> bool \<times> hid_keyboard" where
  "hid_keyboard_init env kb a =
     (let kb = kb\<lparr>aoa := a\<rparr>;
          (ok, a) = aoa_setup_hid env (aoa kb) HID_KEYBOARD_ACCESSORY_ID
                      keyboard_report_desc (length keyboard_report_desc);
          kb = kb\<lparr>aoa := a\<rparr>
      in if \<not> ok then (False, kb)
         else (True, kb\<lparr>keys := replicate HID_KEYBOARD_KEYS False\<rparr>))"

definition hid_keyboard_destroy :: "call_env \<Rightarrow> hid_keyboard \<Rightarrow> hid_keyboard" where
  "hid_keyboard_destroy env kb =
     (let (ok, a) = aoa_unregister_hid env (aoa kb) HID_KEYBOARD_ACCESSORY_ID
      in kb\<lparr>aoa := a\<rparr>)"

subsection \<open>Reading a report\<close>

text \<open>
  The key codes whose table entry is true, in increasing order: what the specification
  calls the currently pressed keys.
\<close>

definition pressed_keys :: "bool list \<Rightarrow> nat list" where
  "pressed_keys ks = filter (\<lambda>i. ks ! i) [0..<HID_KEYBOARD_KEYS]"

text \<open>The six key slots of a report buffer, bytes 2 to 7.\<close>

definition key_slots :: "u8 list \<Rightarrow> u8 list" where
  "key_slots buf = take HID_KEYBOARD_MAX_KEYS (drop HID_KEYBOARD_INDEX_KEYS buf)"

text \<open>
  The Report Encoder in the words of the specification, to compare the source with:
  byte 0 is the modifier mask, byte 1 is zero, and the slots hold the pressed key codes
  in increasing order padded with zeros, or six times the roll-over sentinel when more
  than six keys are pressed.
\<close>

definition spec_encode :: "u8 \<Rightarrow> bool list \<Rightarrow> u8 list" where
  "spec_encode modifier_flags key_table =
     modifier_flags # 0 #
       (if length (pressed_keys key_table) \<le> 6
        then map of_nat (pressed_keys key_table)
               @ replicate (6 - length (pressed_keys key_table)) 0
        else replicate 6 HID_KEYBOARD_ERROR_ROLL_OVER)"

text \<open>The envelope that carries such a report to the transport.\<close>

definition report_event :: "u8 \<Rightarrow> bool list \<Rightarrow> hid_event" where
  "report_event modifier_flags key_table =
     \<lparr>from_accessory_id = HID_KEYBOARD_ACCESSORY_ID,
      buffer = Some (spec_encode modifier_flags key_table),
      buffer_size = HID_KEYBOARD_EVENT_SIZE\<rparr>"

subsection \<open>The keys that a sequence of events leaves pressed\<close>






subsection \<open>Sample inputs\<close>

text \<open>
  An environment in which every call succeeds (the fresh block holds the bytes
  0, 1, 2, ...) and one in which \<^verbatim>\<open>malloc\<close> fails; a transport that has received
  nothing and a keyboard whose table is all false; a key event that is not a repeat.
\<close>

definition env_alloc :: call_env where
  "env_alloc =
     \<lparr>malloc_ok = True, malloc_bytes = of_nat,
      stack_hid_event = \<lparr>from_accessory_id = 0, buffer = None, buffer_size = 0\<rparr>,
      push_ok = True, setup_ok = True, unregister_ok = True\<rparr>"

definition env_nomem :: call_env where
  "env_nomem = env_alloc\<lparr>malloc_ok := False\<rparr>"

definition aoa_fresh :: aoa where
  "aoa_fresh = \<lparr>setup_calls = [], push_calls = [], unregister_calls = []\<rparr>"

definition kb_reset :: hid_keyboard where
  "kb_reset = \<lparr>keys = replicate HID_KEYBOARD_KEYS False, aoa = aoa_fresh\<rparr>"

definition key_event :: "u32 \<Rightarrow> int \<Rightarrow> u16 \<Rightarrow> SDL_KeyboardEvent" where
  "key_event t scancode kmod =
     \<lparr>ev_type = t, ev_repeat = 0, keysym_scancode = scancode, keysym_mod = kmod\<rparr>"

section \<open>The encoder computes the specified report\<close>

lemma length_memset: "length (memset buf off c n) = length buf"
  by (induction n arbitrary: buf off) simp_all

lemma memset_eq:
  "off + n \<le> length buf \<Longrightarrow>
     memset buf off c n = take off buf @ replicate n c @ drop (off + n) buf"
proof (induction n arbitrary: buf off)
  case 0
  then show ?case by simp
next
  case (Suc n)
  have "off < length buf" using Suc.prems by simp
  then have "take (Suc off) (buf[off := c]) = take off buf @ [c]"
    by (simp add: take_Suc_conv_app_nth)
  then show ?case using Suc by (simp add: replicate_app_Cons_same)
qed

lemma create_hid_keyboard_event_eq:
  "create_hid_keyboard_event env =
     (if malloc_ok env then Some (replicate HID_KEYBOARD_EVENT_SIZE 0) else None)"
  apply (simp add: create_hid_keyboard_event_def malloc_def memset_eq Let_def
        HID_KEYBOARD_EVENT_SIZE_def HID_KEYBOARD_MAX_KEYS_def HID_KEYBOARD_INDEX_KEYS_def
        HID_KEYBOARD_INDEX_MODIFIER_def HID_KEYBOARD_MODIFIER_NONE_def HID_KEYBOARD_RESERVED_def)
  apply (simp add: upt_rec numeral_eq_Suc)
  done

declare pressed_keys_loop.simps [simp del]

lemma pressed_keys_loop_eq:
  assumes "length buf = HID_KEYBOARD_EVENT_SIZE" and "c \<le> HID_KEYBOARD_MAX_KEYS"
  shows "pressed_keys_loop ks i c buf =
     (let ps = filter (\<lambda>j. ks ! j) [i..<HID_KEYBOARD_KEYS] in
      if c + length ps \<le> HID_KEYBOARD_MAX_KEYS
      then take (HID_KEYBOARD_INDEX_KEYS + c) buf @ map of_nat ps
             @ drop (HID_KEYBOARD_INDEX_KEYS + c + length ps) buf
      else take HID_KEYBOARD_INDEX_KEYS buf
             @ replicate HID_KEYBOARD_MAX_KEYS HID_KEYBOARD_ERROR_ROLL_OVER)"
  using assms
proof (induction ks i c buf rule: pressed_keys_loop.induct)
  case (1 ks i c buf)
  show ?case
  proof (cases "i < HID_KEYBOARD_KEYS")
    case False
    then show ?thesis
      using "1.prems" by (subst pressed_keys_loop.simps) simp
  next
    case inrange: True
    then have upt: "[i..<HID_KEYBOARD_KEYS] = i # [Suc i..<HID_KEYBOARD_KEYS]"
      by (simp add: upt_conv_Cons)
    show ?thesis
    proof (cases "ks ! i")
      case False
      then show ?thesis
        using inrange upt "1.IH"(2) "1.prems"
        by (subst pressed_keys_loop.simps) simp
    next
      case pressed: True
      show ?thesis
      proof (cases "c \<ge> HID_KEYBOARD_MAX_KEYS")
        case True
        then show ?thesis
          using inrange upt pressed "1.prems"
          by (subst pressed_keys_loop.simps)
             (simp add: memset_eq HID_KEYBOARD_EVENT_SIZE_def HID_KEYBOARD_INDEX_KEYS_def)
      next
        case False
        let ?buf = "buf[HID_KEYBOARD_INDEX_KEYS + c := of_nat i]"
        have lt: "HID_KEYBOARD_INDEX_KEYS + c < length buf"
          using False "1.prems"
          by (simp add: HID_KEYBOARD_EVENT_SIZE_def HID_KEYBOARD_INDEX_KEYS_def)
        let ?ps = "filter (\<lambda>j. ks ! j) [Suc i..<HID_KEYBOARD_KEYS]"
        have t: "take (Suc (HID_KEYBOARD_INDEX_KEYS + c)) ?buf =
                 take (HID_KEYBOARD_INDEX_KEYS + c) buf @ [of_nat i]"
          using lt by (simp add: take_Suc_conv_app_nth)
        have ih: "pressed_keys_loop ks (Suc i) (Suc c) ?buf =
           (if Suc (c + length ?ps) \<le> HID_KEYBOARD_MAX_KEYS
            then take (Suc (HID_KEYBOARD_INDEX_KEYS + c)) ?buf @ map of_nat ?ps
                   @ drop (Suc (HID_KEYBOARD_INDEX_KEYS + c + length ?ps)) ?buf
            else take HID_KEYBOARD_INDEX_KEYS ?buf
                   @ replicate HID_KEYBOARD_MAX_KEYS HID_KEYBOARD_ERROR_ROLL_OVER)"
          using "1.IH"(1) [OF inrange pressed False] "1.prems" False by (simp add: Let_def)
        show ?thesis
          using inrange pressed False upt
          by (subst pressed_keys_loop.simps) (simp add: ih t Let_def)
      qed
    qed
  qed
qed


lemma fresh_buffer_take:
  "take HID_KEYBOARD_INDEX_KEYS
     ((replicate HID_KEYBOARD_EVENT_SIZE 0)[HID_KEYBOARD_INDEX_MODIFIER := m]) = [m, 0::u8]"
  by (simp add: HID_KEYBOARD_INDEX_KEYS_def HID_KEYBOARD_EVENT_SIZE_def
      HID_KEYBOARD_INDEX_MODIFIER_def HID_KEYBOARD_MAX_KEYS_def numeral_eq_Suc)

lemma fresh_buffer_drop:
  "drop (HID_KEYBOARD_INDEX_KEYS + n)
     ((replicate HID_KEYBOARD_EVENT_SIZE 0)[HID_KEYBOARD_INDEX_MODIFIER := m])
     = replicate (HID_KEYBOARD_MAX_KEYS - n) (0::u8)"
  by (simp add: HID_KEYBOARD_INDEX_KEYS_def HID_KEYBOARD_EVENT_SIZE_def
      HID_KEYBOARD_INDEX_MODIFIER_def)

lemma encode_fresh_buffer:
  "pressed_keys_loop ks 0 0
     ((replicate HID_KEYBOARD_EVENT_SIZE 0)[HID_KEYBOARD_INDEX_MODIFIER := m]) =
   spec_encode m ks"
proof -
  have "pressed_keys_loop ks 0 0
     ((replicate HID_KEYBOARD_EVENT_SIZE 0)[HID_KEYBOARD_INDEX_MODIFIER := m]) =
     (if length (pressed_keys ks) \<le> HID_KEYBOARD_MAX_KEYS
      then [m, 0] @ map of_nat (pressed_keys ks)
             @ replicate (HID_KEYBOARD_MAX_KEYS - length (pressed_keys ks)) 0
      else [m, 0] @ replicate HID_KEYBOARD_MAX_KEYS HID_KEYBOARD_ERROR_ROLL_OVER)"
    by (subst pressed_keys_loop_eq) (simp_all add: Let_def pressed_keys_def fresh_buffer_take fresh_buffer_drop)
  then show ?thesis
    by (simp add: spec_encode_def HID_KEYBOARD_MAX_KEYS_def)
qed

lemma convert_hid_keyboard_event_eq:
  "convert_hid_keyboard_event env kb hid_ev event =
     (if \<not> malloc_ok env then Inr (False, kb, hid_ev\<lparr>buffer := None\<rparr>)
      else if keysym_scancode event < 0 then Inl AssertionFailed
      else
        Inr (True,
             kb\<lparr>keys := (if keysym_scancode event < int HID_KEYBOARD_KEYS
                          then (keys kb)[nat (keysym_scancode event) := (ev_type event = SDL_KEYDOWN)]
                          else keys kb)\<rparr>,
             hid_ev\<lparr>buffer := Some (spec_encode (sdl_keymod_to_hid_modifiers (keysym_mod event))
                        (if keysym_scancode event < int HID_KEYBOARD_KEYS
                          then (keys kb)[nat (keysym_scancode event) := (ev_type event = SDL_KEYDOWN)]
                          else keys kb)),
                    buffer_size := HID_KEYBOARD_EVENT_SIZE\<rparr>))"
  by (simp add: convert_hid_keyboard_event_def create_hid_keyboard_event_eq Let_def
        encode_fresh_buffer)


subsection \<open>Dispatch in closed form\<close>

lemma hid_keyboard_convert_event_eq:
  "hid_keyboard_convert_event env kb hid_ev event =
     (if keysym_scancode event < 0 then Inl AssertionFailed
      else if keysym_scancode event < int HID_KEYBOARD_KEYS
              \<or> scancode_is_modifier (keysym_scancode event)
      then convert_hid_keyboard_event env kb
             (hid_ev\<lparr>from_accessory_id := HID_KEYBOARD_ACCESSORY_ID\<rparr>) event
      else Inr (False, kb, hid_ev\<lparr>from_accessory_id := HID_KEYBOARD_ACCESSORY_ID\<rparr>))"
  by (simp add: hid_keyboard_convert_event_def Let_def)

lemma modifier_not_in_table:
  "scancode_is_modifier sc \<Longrightarrow> \<not> sc < int HID_KEYBOARD_KEYS \<and> 0 \<le> sc"
  by (simp add: scancode_is_modifier_def SDL_SCANCODE_LCTRL_def HID_KEYBOARD_KEYS_def)

lemma hid_event_all_fields:
  "(h :: hid_event)\<lparr>from_accessory_id := a, buffer := b, buffer_size := n\<rparr> =
     \<lparr>from_accessory_id = a, buffer = b, buffer_size = n\<rparr>"
  by (cases h) simp

lemma process_key_eq:
  "sc_key_processor_process_key env kb event =
     (if ev_repeat event \<noteq> 0 then Inr kb
      else if keysym_scancode event < 0 then Inl AssertionFailed
      else if keysym_scancode event < int HID_KEYBOARD_KEYS then
        (if malloc_ok env then
           Inr \<lparr>keys = (keys kb)[nat (keysym_scancode event) := (ev_type event = SDL_KEYDOWN)],
                aoa = (aoa kb)\<lparr>push_calls := push_calls (aoa kb) @
                  [report_event (sdl_keymod_to_hid_modifiers (keysym_mod event))
                     ((keys kb)[nat (keysym_scancode event) := (ev_type event = SDL_KEYDOWN)])]\<rparr>\<rparr>
         else Inr kb)
      else if scancode_is_modifier (keysym_scancode event) then
        (if malloc_ok env then
           Inr (kb\<lparr>aoa := (aoa kb)\<lparr>push_calls := push_calls (aoa kb) @
                  [report_event (sdl_keymod_to_hid_modifiers (keysym_mod event)) (keys kb)]\<rparr>\<rparr>)
         else Inr kb)
      else Inr kb)"
  by (simp add: sc_key_processor_process_key_def hid_keyboard_convert_event_eq
        convert_hid_keyboard_event_eq aoa_push_hid_event_def report_event_def
        hid_event_all_fields)

lemma process_key_length:
  "sc_key_processor_process_key env kb event = Inr kb' \<Longrightarrow> length (keys kb') = length (keys kb)"
  by (auto simp: process_key_eq split: if_splits)

lemma process_keys_length:
  "process_keys evs kb = Inr kb' \<Longrightarrow> length (keys kb') = length (keys kb)"
proof (induction evs arbitrary: kb)
  case Nil
  then show ?case by simp
next
  case (Cons e evs)
  obtain env event where e: "e = (env, event)" by (cases e)
  from Cons.prems e obtain kb1 where
    step: "sc_key_processor_process_key env kb event = Inr kb1" and
    rest: "process_keys evs kb1 = Inr kb'"
    by (auto split: sum.splits)
  from Cons.IH [OF rest] process_key_length [OF step] show ?case by simp
qed

subsection \<open>The pressed keys and the slots\<close>

lemma set_pressed_keys: "set (pressed_keys ks) = {k. k < HID_KEYBOARD_KEYS \<and> ks ! k}"
  by (auto simp: pressed_keys_def)

lemma sorted_pressed_keys: "sorted_wrt (<) (pressed_keys ks)"
  by (simp add: pressed_keys_def sorted_wrt_filter)

lemma distinct_pressed_keys: "distinct (pressed_keys ks)"
  by (simp add: pressed_keys_def)

lemma unat_key_code: "k < HID_KEYBOARD_KEYS \<Longrightarrow> unat (of_nat k :: u8) = k"
  by (simp add: unat_of_nat HID_KEYBOARD_KEYS_def)


lemma key_slots_spec_encode:
  "key_slots (spec_encode m ks) =
     (if length (pressed_keys ks) \<le> HID_KEYBOARD_MAX_KEYS
      then map of_nat (pressed_keys ks)
             @ replicate (HID_KEYBOARD_MAX_KEYS - length (pressed_keys ks)) 0
      else replicate HID_KEYBOARD_MAX_KEYS HID_KEYBOARD_ERROR_ROLL_OVER)"
  by (simp add: key_slots_def spec_encode_def HID_KEYBOARD_INDEX_KEYS_def
        HID_KEYBOARD_MAX_KEYS_def)

lemma spec_encode_bytes:
  "length (spec_encode m ks) = HID_KEYBOARD_EVENT_SIZE"
  "spec_encode m ks ! HID_KEYBOARD_INDEX_MODIFIER = m"
  "spec_encode m ks ! 1 = HID_KEYBOARD_RESERVED"
  by (simp_all add: spec_encode_def HID_KEYBOARD_EVENT_SIZE_def HID_KEYBOARD_MAX_KEYS_def
        HID_KEYBOARD_INDEX_MODIFIER_def HID_KEYBOARD_RESERVED_def)

lemma roll_over_in_slots:
  assumes "length (pressed_keys ks) \<le> HID_KEYBOARD_MAX_KEYS"
  shows "HID_KEYBOARD_ERROR_ROLL_OVER \<in> set (key_slots (spec_encode m ks)) \<longleftrightarrow> ks ! 1"
proof -
  have one: "(1::nat) < HID_KEYBOARD_KEYS" by (simp add: HID_KEYBOARD_KEYS_def)
  have "HID_KEYBOARD_ERROR_ROLL_OVER \<in> set (key_slots (spec_encode m ks)) \<longleftrightarrow>
        (1 :: u8) \<in> of_nat ` set (pressed_keys ks)"
    using assms by (auto simp: key_slots_spec_encode HID_KEYBOARD_ERROR_ROLL_OVER_def)
  also have "\<dots> \<longleftrightarrow> 1 \<in> set (pressed_keys ks)"
  proof
    assume "(1 :: u8) \<in> of_nat ` set (pressed_keys ks)"
    then obtain k where k: "k \<in> set (pressed_keys ks)" and eq: "(of_nat k :: u8) = 1"
      by auto
    from k have "k < HID_KEYBOARD_KEYS" by (simp add: set_pressed_keys)
    then have "unat (of_nat k :: u8) = k" by (rule unat_key_code)
    with eq have "k = 1" by simp
    with k show "1 \<in> set (pressed_keys ks)" by simp
  next
    assume "1 \<in> set (pressed_keys ks)"
    then have "(of_nat 1 :: u8) \<in> of_nat ` set (pressed_keys ks)" by (rule imageI)
    then show "(1 :: u8) \<in> of_nat ` set (pressed_keys ks)" by simp
  qed
  also have "\<dots> \<longleftrightarrow> ks ! 1"
    using one by (simp add: set_pressed_keys)
  finally show ?thesis .
qed

lemma distinct_key_bytes: "distinct (map of_nat (pressed_keys ks) :: u8 list)"
proof -
  have "inj_on (of_nat :: nat \<Rightarrow> u8) (set (pressed_keys ks))"
    by (rule inj_on_inverseI [where g = unat]) (simp add: set_pressed_keys unat_key_code)
  then show ?thesis by (simp add: distinct_map distinct_pressed_keys)
qed

lemma count_list_distinct: "distinct xs \<Longrightarrow> count_list xs x = (if x \<in> set xs then 1 else 0)"
  by (induction xs) auto

lemma keyboard_report_desc_bytes:
  "keyboard_report_desc =
     [0x05, 0x01, 0x09, 0x06, 0xA1, 0x01, 0x05, 0x07, 0x19, 0xE0, 0x29, 0xE7, 0x15, 0x00,
      0x25, 0x01, 0x75, 0x01, 0x95, 0x08, 0x81, 0x02, 0x75, 0x08, 0x95, 0x01, 0x81, 0x01,
      0x05, 0x08, 0x19, 0x01, 0x29, 0x05, 0x75, 0x01, 0x95, 0x05, 0x91, 0x02, 0x75, 0x03,
      0x95, 0x01, 0x91, 0x01, 0x05, 0x07, 0x19, 0x00, 0x29, 0x65, 0x15, 0x00, 0x25, 0x65,
      0x75, 0x08, 0x95, 0x06, 0x81, 0x00, 0xC0]"
  by (simp add: keyboard_report_desc_def HID_KEYBOARD_KEYS_def HID_KEYBOARD_MAX_KEYS_def)

lemma length_keyboard_report_desc: "length keyboard_report_desc = 63"
  by (simp add: keyboard_report_desc_def)

subsection \<open>The table follows the event sequence\<close>











section \<open>The claims\<close>

text \<open>
  Each claim about the program is stated before its theorem. A theorem with hypotheses
  is followed by an instance on sample inputs; a claim that the code does not satisfy
  as stated comes with the input on which it fails and with the statement that holds.
\<close>

subsection \<open>C1: the key slots list the pressed keys\<close>




subsection \<open>C2: roll-over\<close>

text \<open>
  The second half of C2 fails as stated: with the single key code 1 pressed, one table
  entry is true and the first key slot holds 1, the value of the roll-over sentinel.
\<close>

theorem sentinel_in_slot_without_rollover:
  "convert_hid_keyboard_event env_alloc kb_reset (stack_hid_event env_alloc)
     (key_event SDL_KEYDOWN 1 KMOD_NONE) =
     Inr (True, kb_reset\<lparr>keys := (keys kb_reset)[1 := True]\<rparr>,
          \<lparr>from_accessory_id = 0, buffer = Some [0, 0, 1, 0, 0, 0, 0, 0],
           buffer_size = 8\<rparr>) \<and>
   length (pressed_keys ((keys kb_reset)[1 := True])) = 1 \<and>
   key_slots [0, 0, 1, 0, 0, 0, 0, 0] ! 0 = HID_KEYBOARD_ERROR_ROLL_OVER"
  by code_simp

text \<open>
  C2, amended. Whenever \<^verbatim>\<open>convert_hid_keyboard_event\<close> produces a report: if
  strictly more than six table entries are true, all six key slots hold the roll-over
  sentinel, byte 0 is the modifier mask computed from the event's modifier flags and
  byte 1 is zero; if six or fewer entries are true, a key slot holds the sentinel value
  exactly when the table entry of key code 1 is true (the slot then reports that key),
  so with that entry false no slot contains the sentinel.
\<close>

theorem rollover_report_and_sentinel:
  assumes "length (keys kb) = HID_KEYBOARD_KEYS"
    and "convert_hid_keyboard_event env kb hid_ev event = Inr (True, kb', hid_ev')"
  shows "\<exists>buf. buffer hid_ev' = Some buf \<and>
           (HID_KEYBOARD_MAX_KEYS < length (pressed_keys (keys kb')) \<longrightarrow>
              key_slots buf = replicate HID_KEYBOARD_MAX_KEYS HID_KEYBOARD_ERROR_ROLL_OVER \<and>
              buf ! HID_KEYBOARD_INDEX_MODIFIER =
                sdl_keymod_to_hid_modifiers (keysym_mod event) \<and>
              buf ! 1 = 0) \<and>
           (length (pressed_keys (keys kb')) \<le> HID_KEYBOARD_MAX_KEYS \<longrightarrow>
              (HID_KEYBOARD_ERROR_ROLL_OVER \<in> set (key_slots buf) \<longleftrightarrow> keys kb' ! 1))"
proof -
  let ?buf = "spec_encode (sdl_keymod_to_hid_modifiers (keysym_mod event)) (keys kb')"
  from assms(2) have buf: "buffer hid_ev' = Some ?buf"
    by (auto simp: convert_hid_keyboard_event_eq split: if_splits)
  have over: "HID_KEYBOARD_MAX_KEYS < length (pressed_keys (keys kb')) \<Longrightarrow>
      key_slots ?buf = replicate HID_KEYBOARD_MAX_KEYS HID_KEYBOARD_ERROR_ROLL_OVER"
    by (simp add: key_slots_spec_encode)
  have bytes:
    "?buf ! HID_KEYBOARD_INDEX_MODIFIER = sdl_keymod_to_hid_modifiers (keysym_mod event)"
    "?buf ! 1 = 0"
    using spec_encode_bytes [of "sdl_keymod_to_hid_modifiers (keysym_mod event)" "keys kb'"]
    by (simp_all add: HID_KEYBOARD_RESERVED_def)
  from buf over bytes
    roll_over_in_slots [of "keys kb'" "sdl_keymod_to_hid_modifiers (keysym_mod event)"]
  show ?thesis by blast
qed

text \<open>
  With the keys 4..9 held, pressing 10 together with Left-Control gives the roll-over
  report; pressing the letter A alone gives a report without the sentinel.
\<close>

theorem rollover_report_and_sentinel_witness:
  "length (keys (kb_reset\<lparr>keys := (keys kb_reset)
      [4 := True, 5 := True, 6 := True, 7 := True, 8 := True, 9 := True]\<rparr>))
     = HID_KEYBOARD_KEYS \<and>
   convert_hid_keyboard_event env_alloc
     (kb_reset\<lparr>keys := (keys kb_reset)
        [4 := True, 5 := True, 6 := True, 7 := True, 8 := True, 9 := True]\<rparr>)
     (stack_hid_event env_alloc) (key_event SDL_KEYDOWN 10 KMOD_LCTRL) =
     Inr (True,
          kb_reset\<lparr>keys := (keys kb_reset)
            [4 := True, 5 := True, 6 := True, 7 := True, 8 := True, 9 := True,
             10 := True]\<rparr>,
          \<lparr>from_accessory_id = 0, buffer = Some [1, 0, 1, 1, 1, 1, 1, 1],
           buffer_size = 8\<rparr>) \<and>
   HID_KEYBOARD_MAX_KEYS < length (pressed_keys ((keys kb_reset)
      [4 := True, 5 := True, 6 := True, 7 := True, 8 := True, 9 := True, 10 := True])) \<and>
   key_slots [1, 0, 1, 1, 1, 1, 1, 1] =
     replicate HID_KEYBOARD_MAX_KEYS HID_KEYBOARD_ERROR_ROLL_OVER \<and>
   [1, 0, 1, 1, 1, 1, 1, 1] ! HID_KEYBOARD_INDEX_MODIFIER =
     sdl_keymod_to_hid_modifiers KMOD_LCTRL \<and>
   [1, 0, 1, 1, 1, 1, 1, 1 :: u8] ! 1 = 0 \<and>
   length (keys kb_reset) = HID_KEYBOARD_KEYS \<and>
   convert_hid_keyboard_event env_alloc kb_reset (stack_hid_event env_alloc)
     (key_event SDL_KEYDOWN SDL_SCANCODE_A KMOD_NONE) =
     Inr (True, kb_reset\<lparr>keys := (keys kb_reset)[4 := True]\<rparr>,
          \<lparr>from_accessory_id = 0, buffer = Some [0, 0, 4, 0, 0, 0, 0, 0],
           buffer_size = 8\<rparr>) \<and>
   length (pressed_keys ((keys kb_reset)[4 := True])) \<le> HID_KEYBOARD_MAX_KEYS \<and>
   HID_KEYBOARD_ERROR_ROLL_OVER \<notin> set (key_slots [0, 0, 4, 0, 0, 0, 0, 0]) \<and>
   \<not> (keys kb_reset)[4 := True] ! 1"
proof -
  let ?kb6 = "kb_reset\<lparr>keys := (keys kb_reset)
        [4 := True, 5 := True, 6 := True, 7 := True, 8 := True, 9 := True]\<rparr>"
  let ?kb7 = "kb_reset\<lparr>keys := (keys kb_reset)
        [4 := True, 5 := True, 6 := True, 7 := True, 8 := True, 9 := True, 10 := True]\<rparr>"
  let ?h7 = "\<lparr>from_accessory_id = 0, buffer = Some [1, 0, 1, 1, 1, 1, 1, 1],
              buffer_size = 8\<rparr>"
  let ?kb1 = "kb_reset\<lparr>keys := (keys kb_reset)[4 := True]\<rparr>"
  let ?h1 = "\<lparr>from_accessory_id = 0, buffer = Some [0, 0, 4, 0, 0, 0, 0, 0],
              buffer_size = 8\<rparr>"
  have a1: "length (keys ?kb6) = HID_KEYBOARD_KEYS"
    by (simp add: kb_reset_def)
  have a2: "convert_hid_keyboard_event env_alloc ?kb6 (stack_hid_event env_alloc)
      (key_event SDL_KEYDOWN 10 KMOD_LCTRL) = Inr (True, ?kb7, ?h7)"
    by code_simp
  have a3: "HID_KEYBOARD_MAX_KEYS < length (pressed_keys (keys ?kb7))"
    by code_simp
  have b1: "length (keys kb_reset) = HID_KEYBOARD_KEYS"
    by (simp add: kb_reset_def)
  have b2: "convert_hid_keyboard_event env_alloc kb_reset (stack_hid_event env_alloc)
      (key_event SDL_KEYDOWN SDL_SCANCODE_A KMOD_NONE) = Inr (True, ?kb1, ?h1)"
    by code_simp
  have b3: "length (pressed_keys (keys ?kb1)) \<le> HID_KEYBOARD_MAX_KEYS"
    by code_simp
  have b4: "\<not> keys ?kb1 ! 1"
    by code_simp
  from rollover_report_and_sentinel [OF a1 a2] a3
  have over: "key_slots [1, 0, 1, 1, 1, 1, 1, 1] =
       replicate HID_KEYBOARD_MAX_KEYS HID_KEYBOARD_ERROR_ROLL_OVER \<and>
     [1, 0, 1, 1, 1, 1, 1, 1] ! HID_KEYBOARD_INDEX_MODIFIER =
       sdl_keymod_to_hid_modifiers KMOD_LCTRL \<and>
     [1, 0, 1, 1, 1, 1, 1, 1 :: u8] ! 1 = 0"
    by (simp add: key_event_def)
  from rollover_report_and_sentinel [OF b1 b2] b3 b4
  have under: "HID_KEYBOARD_ERROR_ROLL_OVER \<notin> set (key_slots [0, 0, 4, 0, 0, 0, 0, 0])"
    by simp
  from a1 a2 a3 over b1 b2 b3 b4 under show ?thesis by simp
qed

subsection \<open>C3: modifier keys\<close>

text \<open>
  C3 fails as stated: pressing Left-Shift (scancode 225) on an all-false table produces
  a report, but the table has no entry for the key code 225 and is all false
  afterwards, so the press is recorded nowhere in the tracker.
\<close>

theorem modifier_press_not_recorded:
  "sc_key_processor_process_key env_alloc kb_reset
     (key_event SDL_KEYDOWN SDL_SCANCODE_LSHIFT KMOD_LSHIFT) =
     Inr (kb_reset\<lparr>aoa := aoa_fresh\<lparr>push_calls :=
        [\<lparr>from_accessory_id = 1, buffer = Some [2, 0, 0, 0, 0, 0, 0, 0],
          buffer_size = 8\<rparr>]\<rparr>\<rparr>) \<and>
   keys (kb_reset\<lparr>aoa := aoa_fresh\<lparr>push_calls :=
        [\<lparr>from_accessory_id = 1, buffer = Some [2, 0, 0, 0, 0, 0, 0, 0],
          buffer_size = 8\<rparr>]\<rparr>\<rparr>) =
     replicate HID_KEYBOARD_KEYS False \<and>
   \<not> nat SDL_SCANCODE_LSHIFT < length (replicate HID_KEYBOARD_KEYS False) \<and>
   True \<notin> set (replicate HID_KEYBOARD_KEYS False)"
  by code_simp

text \<open>
  C3, amended. For every event that is not a repeat and whose key code is one of the
  eight modifier key codes, dispatch treats the event as supported: when the report
  buffer is allocated, the Report Encoder runs and exactly one report goes to the
  transport, with the modifier mask of the event and the key slots of the table. The
  table itself is left as it was (the result differs from the given keyboard in the
  transport only): a modifier key code is beyond the table and has no entry. Without
  memory nothing happens.
\<close>

theorem modifier_event_reports_without_tracking:
  assumes "ev_repeat event = 0"
    and "scancode_is_modifier (keysym_scancode event)"
  shows "sc_key_processor_process_key env kb event =
           (if malloc_ok env
            then Inr (kb\<lparr>aoa := (aoa kb)\<lparr>push_calls := push_calls (aoa kb) @
                   [report_event (sdl_keymod_to_hid_modifiers (keysym_mod event))
                      (keys kb)]\<rparr>\<rparr>)
            else Inr kb) \<and>
         \<not> nat (keysym_scancode event) < HID_KEYBOARD_KEYS"
  using assms modifier_not_in_table [OF assms(2)]
  by (simp add: process_key_eq nat_less_iff)

text \<open>Left-Shift is pressed, once with memory and once without.\<close>

theorem modifier_event_reports_without_tracking_witness:
  "ev_repeat (key_event SDL_KEYDOWN SDL_SCANCODE_LSHIFT KMOD_LSHIFT) = 0 \<and>
   scancode_is_modifier
     (keysym_scancode (key_event SDL_KEYDOWN SDL_SCANCODE_LSHIFT KMOD_LSHIFT)) \<and>
   sc_key_processor_process_key env_alloc kb_reset
     (key_event SDL_KEYDOWN SDL_SCANCODE_LSHIFT KMOD_LSHIFT) =
     Inr (kb_reset\<lparr>aoa := (aoa kb_reset)\<lparr>push_calls := push_calls (aoa kb_reset) @
        [report_event (sdl_keymod_to_hid_modifiers KMOD_LSHIFT) (keys kb_reset)]\<rparr>\<rparr>) \<and>
   sc_key_processor_process_key env_nomem kb_reset
     (key_event SDL_KEYDOWN SDL_SCANCODE_LSHIFT KMOD_LSHIFT) = Inr kb_reset"
proof -
  let ?e = "key_event SDL_KEYDOWN SDL_SCANCODE_LSHIFT KMOD_LSHIFT"
  have h1: "ev_repeat ?e = 0"
    by (simp add: key_event_def)
  have h2: "scancode_is_modifier (keysym_scancode ?e)"
    by code_simp
  from modifier_event_reports_without_tracking [OF h1 h2, of env_alloc kb_reset]
    modifier_event_reports_without_tracking [OF h1 h2, of env_nomem kb_reset] h1 h2
  show ?thesis
    by (simp add: env_alloc_def env_nomem_def key_event_def)
qed

subsection \<open>C4: the letter A and the left shift key\<close>

text \<open>
  C4. Starting from an all-false table, with every report buffer allocated: pressing A
  yields the report with modifier byte \<open>0x00\<close> and key slots \<open>[A,0,0,0,0,0]\<close>; then
  pressing Left-Shift yields modifier byte \<open>0x02\<close> and key slots \<open>[A,0,0,0,0,0]\<close>; then
  releasing A yields modifier byte \<open>0x02\<close> and key slots \<open>[0,0,0,0,0,0]\<close>. The scancode
  of A is 4. The three reports are what the transport receives, in this order, and the
  table is all false again at the end.
\<close>

theorem scenario_a_shift_release:
  assumes "malloc_ok env1" and "malloc_ok env2" and "malloc_ok env3"
  shows "process_keys
           [(env1, key_event SDL_KEYDOWN SDL_SCANCODE_A KMOD_NONE),
            (env2, key_event SDL_KEYDOWN SDL_SCANCODE_LSHIFT KMOD_LSHIFT),
            (env3, key_event SDL_KEYUP SDL_SCANCODE_A KMOD_LSHIFT)]
           \<lparr>keys = replicate HID_KEYBOARD_KEYS False, aoa = a\<rparr> =
         Inr \<lparr>keys = replicate HID_KEYBOARD_KEYS False,
              aoa = a\<lparr>push_calls := push_calls a @
                [\<lparr>from_accessory_id = 1, buffer = Some [0x00, 0, 4, 0, 0, 0, 0, 0],
                  buffer_size = 8\<rparr>,
                 \<lparr>from_accessory_id = 1, buffer = Some [0x02, 0, 4, 0, 0, 0, 0, 0],
                  buffer_size = 8\<rparr>,
                 \<lparr>from_accessory_id = 1, buffer = Some [0x02, 0, 0, 0, 0, 0, 0, 0],
                  buffer_size = 8\<rparr>]\<rparr>\<rparr>"
proof -
  let ?tab0 = "replicate HID_KEYBOARD_KEYS False"
  have none: "pressed_keys ?tab0 = []"
    by code_simp
  have one: "pressed_keys (?tab0[4 := True]) = [4]"
    by code_simp
  have restored: "?tab0[4 := False] = ?tab0"
    by code_simp
  have m0: "sdl_keymod_to_hid_modifiers KMOD_NONE = 0"
    by code_simp
  have m2: "sdl_keymod_to_hid_modifiers KMOD_LSHIFT = 2"
    by code_simp
  have a_in: "(4::int) < int HID_KEYBOARD_KEYS"
    and shift_out: "\<not> (225::int) < int HID_KEYBOARD_KEYS"
    by (simp_all add: HID_KEYBOARD_KEYS_def)
  have rep: "replicate 5 (0::u8) = [0, 0, 0, 0, 0]"
    "replicate 6 (0::u8) = [0, 0, 0, 0, 0, 0]"
    by (simp_all add: numeral_eq_Suc)
  have r0: "report_event 0 (?tab0[4 := True]) =
      \<lparr>from_accessory_id = 1, buffer = Some [0, 0, 4, 0, 0, 0, 0, 0], buffer_size = 8\<rparr>"
    and r1: "report_event 2 (?tab0[4 := True]) =
      \<lparr>from_accessory_id = 1, buffer = Some [2, 0, 4, 0, 0, 0, 0, 0], buffer_size = 8\<rparr>"
    and r2: "report_event 2 ?tab0 =
      \<lparr>from_accessory_id = 1, buffer = Some [2, 0, 0, 0, 0, 0, 0, 0], buffer_size = 8\<rparr>"
    by (simp_all add: report_event_def spec_encode_def none one rep
        HID_KEYBOARD_ACCESSORY_ID_def HID_KEYBOARD_EVENT_SIZE_def HID_KEYBOARD_MAX_KEYS_def)
  show ?thesis
    using assms a_in shift_out
    by (simp add: process_key_eq key_event_def SDL_SCANCODE_A_def scancode_is_modifier_def
        SDL_SCANCODE_LSHIFT_def SDL_SCANCODE_LCTRL_def SDL_SCANCODE_RGUI_def
        SDL_KEYDOWN_def SDL_KEYUP_def restored m0 m2 r0 r1 r2)
qed

text \<open>The scenario on a transport that has received nothing, every call succeeding.\<close>

theorem scenario_a_shift_release_witness:
  "malloc_ok env_alloc \<and>
   process_keys
     [(env_alloc, key_event SDL_KEYDOWN SDL_SCANCODE_A KMOD_NONE),
      (env_alloc, key_event SDL_KEYDOWN SDL_SCANCODE_LSHIFT KMOD_LSHIFT),
      (env_alloc, key_event SDL_KEYUP SDL_SCANCODE_A KMOD_LSHIFT)]
     \<lparr>keys = replicate HID_KEYBOARD_KEYS False, aoa = aoa_fresh\<rparr> =
   Inr \<lparr>keys = replicate HID_KEYBOARD_KEYS False,
        aoa = aoa_fresh\<lparr>push_calls := push_calls aoa_fresh @
          [\<lparr>from_accessory_id = 1, buffer = Some [0x00, 0, 4, 0, 0, 0, 0, 0],
            buffer_size = 8\<rparr>,
           \<lparr>from_accessory_id = 1, buffer = Some [0x02, 0, 4, 0, 0, 0, 0, 0],
            buffer_size = 8\<rparr>,
           \<lparr>from_accessory_id = 1, buffer = Some [0x02, 0, 0, 0, 0, 0, 0, 0],
            buffer_size = 8\<rparr>]\<rparr>\<rparr>"
proof -
  have h: "malloc_ok env_alloc"
    by (simp add: env_alloc_def)
  from h scenario_a_shift_release [OF h h h, of aoa_fresh] show ?thesis
    by (rule conjI)
qed

subsection \<open>C5: pressing a key twice\<close>

text \<open>
  C5 fails as stated for the modifier keys, which are supported keys: after two presses
  of Left-Shift the key code 225 is not among the pressed keys of the table at all.
  It also fails for the letter A when both calls find no memory: the table is not
  touched and the key code 4 is not among the pressed keys.
\<close>

theorem modifier_pressed_twice_not_pressed:
  "process_keys
     [(env_alloc, key_event SDL_KEYDOWN SDL_SCANCODE_LSHIFT KMOD_LSHIFT),
      (env_alloc, key_event SDL_KEYDOWN SDL_SCANCODE_LSHIFT KMOD_LSHIFT)] kb_reset =
     Inr (kb_reset\<lparr>aoa := aoa_fresh\<lparr>push_calls :=
        [\<lparr>from_accessory_id = 1, buffer = Some [2, 0, 0, 0, 0, 0, 0, 0],
          buffer_size = 8\<rparr>,
         \<lparr>from_accessory_id = 1, buffer = Some [2, 0, 0, 0, 0, 0, 0, 0],
          buffer_size = 8\<rparr>]\<rparr>\<rparr>) \<and>
   count_list (pressed_keys (keys kb_reset)) (nat SDL_SCANCODE_LSHIFT) = 0 \<and>
   process_keys
     [(env_nomem, key_event SDL_KEYDOWN SDL_SCANCODE_A KMOD_NONE),
      (env_nomem, key_event SDL_KEYDOWN SDL_SCANCODE_A KMOD_NONE)] kb_reset =
     Inr kb_reset \<and>
   count_list (pressed_keys (keys kb_reset)) (nat SDL_SCANCODE_A) = 0"
  by code_simp

text \<open>
  C5, amended. Take a key-down event that is not a repeat, for a supported key, and
  process it twice in a row, the first call getting its report buffer. Both calls
  return, and the second leaves the table as the first left it, whatever happens to
  its allocation. For a key code inside the table range the entry is true after the
  first call, the key code occurs exactly once among the pressed keys, and every other
  entry is as before the first call. For a modifier key code the table is as before the
  first call and the key code is not among the pressed keys.
\<close>

theorem repeated_press_idempotent:
  assumes "length (keys kb) = HID_KEYBOARD_KEYS"
    and "ev_repeat event = 0" and "ev_type event = SDL_KEYDOWN"
    and "0 \<le> keysym_scancode event"
    and "keysym_scancode event < int HID_KEYBOARD_KEYS
           \<or> scancode_is_modifier (keysym_scancode event)"
    and "malloc_ok env1"
  shows "\<exists>kb1 kb2.
           sc_key_processor_process_key env1 kb event = Inr kb1 \<and>
           sc_key_processor_process_key env2 kb1 event = Inr kb2 \<and>
           keys kb2 = keys kb1 \<and>
           (keysym_scancode event < int HID_KEYBOARD_KEYS \<longrightarrow>
              keys kb1 ! nat (keysym_scancode event) \<and>
              count_list (pressed_keys (keys kb1)) (nat (keysym_scancode event)) = 1 \<and>
              (\<forall>k. k \<noteq> nat (keysym_scancode event) \<longrightarrow> keys kb1 ! k = keys kb ! k)) \<and>
           (scancode_is_modifier (keysym_scancode event) \<longrightarrow>
              keys kb1 = keys kb \<and>
              count_list (pressed_keys (keys kb1)) (nat (keysym_scancode event)) = 0)"
proof (cases "keysym_scancode event < int HID_KEYBOARD_KEYS")
  case True
  let ?k = "nat (keysym_scancode event)"
  have k: "?k < HID_KEYBOARD_KEYS" using True assms(4) by simp
  have notmod: "\<not> scancode_is_modifier (keysym_scancode event)"
    using True modifier_not_in_table by blast
  have "?k \<in> set (pressed_keys ((keys kb)[?k := True]))"
    using k assms(1) by (simp add: set_pressed_keys)
  then have "count_list (pressed_keys ((keys kb)[?k := True])) ?k = 1"
    by (simp add: count_list_distinct distinct_pressed_keys)
  then show ?thesis
    using True assms k notmod by (auto simp: process_key_eq)
next
  case False
  then have m: "scancode_is_modifier (keysym_scancode event)" using assms(5) by simp
  have "nat (keysym_scancode event) \<notin> set (pressed_keys (keys kb))"
    using False assms(4) by (simp add: set_pressed_keys nat_less_iff)
  then have "count_list (pressed_keys (keys kb)) (nat (keysym_scancode event)) = 0"
    by (simp add: count_list_distinct distinct_pressed_keys)
  then show ?thesis
    using False assms m by (auto simp: process_key_eq)
qed

text \<open>
  The letter A pressed twice (the second time without memory), and Left-Shift pressed
  twice.
\<close>

theorem repeated_press_idempotent_witness:
  "length (keys kb_reset) = HID_KEYBOARD_KEYS \<and>
   malloc_ok env_alloc \<and>
   sc_key_processor_process_key env_alloc kb_reset
     (key_event SDL_KEYDOWN SDL_SCANCODE_A KMOD_NONE) =
     Inr \<lparr>keys = (keys kb_reset)[4 := True],
          aoa = aoa_fresh\<lparr>push_calls := [report_event 0 ((keys kb_reset)[4 := True])]\<rparr>\<rparr> \<and>
   sc_key_processor_process_key env_nomem
     \<lparr>keys = (keys kb_reset)[4 := True],
      aoa = aoa_fresh\<lparr>push_calls := [report_event 0 ((keys kb_reset)[4 := True])]\<rparr>\<rparr>
     (key_event SDL_KEYDOWN SDL_SCANCODE_A KMOD_NONE) =
     Inr \<lparr>keys = (keys kb_reset)[4 := True],
          aoa = aoa_fresh\<lparr>push_calls := [report_event 0 ((keys kb_reset)[4 := True])]\<rparr>\<rparr> \<and>
   count_list (pressed_keys ((keys kb_reset)[4 := True])) 4 = 1 \<and>
   (\<exists>kb1 kb2.
      sc_key_processor_process_key env_alloc kb_reset
        (key_event SDL_KEYDOWN SDL_SCANCODE_LSHIFT KMOD_LSHIFT) = Inr kb1 \<and>
      sc_key_processor_process_key env_alloc kb1
        (key_event SDL_KEYDOWN SDL_SCANCODE_LSHIFT KMOD_LSHIFT) = Inr kb2 \<and>
      keys kb2 = keys kb1 \<and> keys kb1 = keys kb_reset \<and>
      count_list (pressed_keys (keys kb1)) (nat SDL_SCANCODE_LSHIFT) = 0)"
proof -
  let ?a = "key_event SDL_KEYDOWN SDL_SCANCODE_A KMOD_NONE"
  let ?s = "key_event SDL_KEYDOWN SDL_SCANCODE_LSHIFT KMOD_LSHIFT"
  let ?kb1 = "\<lparr>keys = (keys kb_reset)[4 := True],
          aoa = aoa_fresh\<lparr>push_calls := [report_event 0 ((keys kb_reset)[4 := True])]\<rparr>\<rparr>"
  have h1: "length (keys kb_reset) = HID_KEYBOARD_KEYS"
    by (simp add: kb_reset_def)
  have h6: "malloc_ok env_alloc"
    by (simp add: env_alloc_def)
  have a2: "ev_repeat ?a = 0" and a3: "ev_type ?a = SDL_KEYDOWN"
    and a4: "0 \<le> keysym_scancode ?a"
    and a5: "keysym_scancode ?a < int HID_KEYBOARD_KEYS
               \<or> scancode_is_modifier (keysym_scancode ?a)"
    by (simp_all add: key_event_def SDL_SCANCODE_A_def HID_KEYBOARD_KEYS_def)
  have s2: "ev_repeat ?s = 0" and s3: "ev_type ?s = SDL_KEYDOWN"
    and s4: "0 \<le> keysym_scancode ?s"
    and s5: "keysym_scancode ?s < int HID_KEYBOARD_KEYS
               \<or> scancode_is_modifier (keysym_scancode ?s)"
    by (simp_all add: key_event_def SDL_SCANCODE_LSHIFT_def scancode_is_modifier_def
        SDL_SCANCODE_LCTRL_def SDL_SCANCODE_RGUI_def)
  have smod: "scancode_is_modifier (keysym_scancode ?s)"
    by (simp add: key_event_def SDL_SCANCODE_LSHIFT_def scancode_is_modifier_def
        SDL_SCANCODE_LCTRL_def SDL_SCANCODE_RGUI_def)
  have first: "sc_key_processor_process_key env_alloc kb_reset ?a = Inr ?kb1"
    by code_simp
  have second: "sc_key_processor_process_key env_nomem ?kb1 ?a = Inr ?kb1"
    by code_simp
  from repeated_press_idempotent [OF h1 a2 a3 a4 a5 h6, of env_nomem] first
  have once: "count_list (pressed_keys ((keys kb_reset)[4 := True])) 4 = 1"
    by (auto simp: key_event_def SDL_SCANCODE_A_def HID_KEYBOARD_KEYS_def)
  from repeated_press_idempotent [OF h1 s2 s3 s4 s5 h6, of env_alloc] smod
  have shift: "\<exists>kb1 kb2.
      sc_key_processor_process_key env_alloc kb_reset ?s = Inr kb1 \<and>
      sc_key_processor_process_key env_alloc kb1 ?s = Inr kb2 \<and>
      keys kb2 = keys kb1 \<and> keys kb1 = keys kb_reset \<and>
      count_list (pressed_keys (keys kb1)) (nat SDL_SCANCODE_LSHIFT) = 0"
    by (auto simp: key_event_def)
  from h1 h6 first second once shift show ?thesis by blast
qed

subsection \<open>C6: repeat events\<close>

text \<open>
  C6. For every event whose repeat flag is set, \<^verbatim>\<open>sc_key_processor_process_key\<close>
  returns at once: the keyboard it leaves is the keyboard it was given, so no entry of
  the key table has changed and nothing was handed to the transport
  (\<open>push_calls\<close> is part of the keyboard's state).
\<close>

theorem repeat_event_ignored:
  "ev_repeat event \<noteq> 0 \<Longrightarrow> sc_key_processor_process_key env kb event = Inr kb"
  by (simp add: sc_key_processor_process_key_def)

text \<open>A repeated key-down of the letter A, in an environment where every call succeeds.\<close>

theorem repeat_event_ignored_witness:
  "ev_repeat ((key_event SDL_KEYDOWN SDL_SCANCODE_A KMOD_NONE)\<lparr>ev_repeat := 1\<rparr>) \<noteq> 0 \<and>
   sc_key_processor_process_key env_alloc kb_reset
     ((key_event SDL_KEYDOWN SDL_SCANCODE_A KMOD_NONE)\<lparr>ev_repeat := 1\<rparr>) = Inr kb_reset"
proof -
  have h: "ev_repeat ((key_event SDL_KEYDOWN SDL_SCANCODE_A KMOD_NONE)\<lparr>ev_repeat := 1\<rparr>) \<noteq> 0"
    by simp
  from h repeat_event_ignored [OF h] show ?thesis by simp
qed

subsection \<open>C7: unsupported keys\<close>

text \<open>
  C7. For every event whose key code lies outside the table range \<open>0..101\<close> and is not
  one of the eight modifier key codes, dispatch changes nothing and produces no report:
  \<^verbatim>\<open>sc_key_processor_process_key\<close> returns the keyboard it was given (same table,
  nothing pushed). The only other outcome is the failed assertion on a negative
  scancode of an event that is not a repeat, which stops the program before anything
  is touched.
\<close>

theorem unsupported_key_discarded:
  assumes "\<not> (0 \<le> keysym_scancode event \<and> keysym_scancode event < int HID_KEYBOARD_KEYS)"
    and "\<not> scancode_is_modifier (keysym_scancode event)"
  shows "sc_key_processor_process_key env kb event =
           (if ev_repeat event = 0 \<and> keysym_scancode event < 0
            then Inl AssertionFailed else Inr kb)"
  using assms by (auto simp: process_key_eq)

text \<open>Scancode 150 is neither in the table nor a modifier.\<close>

theorem unsupported_key_discarded_witness:
  "\<not> (0 \<le> keysym_scancode (key_event SDL_KEYDOWN 150 KMOD_NONE) \<and>
      keysym_scancode (key_event SDL_KEYDOWN 150 KMOD_NONE) < int HID_KEYBOARD_KEYS) \<and>
   \<not> scancode_is_modifier (keysym_scancode (key_event SDL_KEYDOWN 150 KMOD_NONE)) \<and>
   sc_key_processor_process_key env_alloc kb_reset (key_event SDL_KEYDOWN 150 KMOD_NONE) =
     Inr kb_reset"
proof -
  let ?e = "key_event SDL_KEYDOWN 150 KMOD_NONE"
  have h1: "\<not> (0 \<le> keysym_scancode ?e \<and> keysym_scancode ?e < int HID_KEYBOARD_KEYS)"
    by (simp add: key_event_def HID_KEYBOARD_KEYS_def)
  have h2: "\<not> scancode_is_modifier (keysym_scancode ?e)"
    by (simp add: key_event_def scancode_is_modifier_def SDL_SCANCODE_LCTRL_def)
  from unsupported_key_discarded [OF h1 h2, of env_alloc kb_reset] h1 h2
  show ?thesis by (simp add: key_event_def)
qed

subsection \<open>C8: the shape of a report\<close>

text \<open>
  C8. Every report buffer that \<^verbatim>\<open>convert_hid_keyboard_event\<close> produces has exactly
  \<open>2 + HID_KEYBOARD_MAX_KEYS = 8\<close> bytes (and the event carries that size), its byte 1 is
  zero, and in a report that is not a roll-over report (at most six entries of the
  table are true) the key slots that are not zero are pairwise different.
\<close>

theorem report_buffer_invariant:
  assumes "length (keys kb) = HID_KEYBOARD_KEYS"
    and "convert_hid_keyboard_event env kb hid_ev event = Inr (True, kb', hid_ev')"
  shows "\<exists>buf. buffer hid_ev' = Some buf \<and>
           buffer_size hid_ev' = 2 + HID_KEYBOARD_MAX_KEYS \<and>
           length buf = 2 + HID_KEYBOARD_MAX_KEYS \<and> length buf = 8 \<and>
           buf ! 1 = 0 \<and>
           (length (pressed_keys (keys kb')) \<le> HID_KEYBOARD_MAX_KEYS \<longrightarrow>
              distinct (filter (\<lambda>b. b \<noteq> 0) (key_slots buf)))"
proof -
  let ?buf = "spec_encode (sdl_keymod_to_hid_modifiers (keysym_mod event)) (keys kb')"
  from assms(2) have buf: "buffer hid_ev' = Some ?buf"
    and size: "buffer_size hid_ev' = HID_KEYBOARD_EVENT_SIZE"
    by (auto simp: convert_hid_keyboard_event_eq split: if_splits)
  have bytes: "length ?buf = HID_KEYBOARD_EVENT_SIZE" "?buf ! 1 = 0"
    using spec_encode_bytes [of "sdl_keymod_to_hid_modifiers (keysym_mod event)" "keys kb'"]
    by (simp_all add: HID_KEYBOARD_RESERVED_def)
  have "distinct (filter (\<lambda>b. b \<noteq> 0) (key_slots ?buf))"
    if "length (pressed_keys (keys kb')) \<le> HID_KEYBOARD_MAX_KEYS"
    using that distinct_key_bytes [of "keys kb'"] by (simp add: key_slots_spec_encode)
  with buf size bytes show ?thesis
    by (simp add: HID_KEYBOARD_EVENT_SIZE_def HID_KEYBOARD_MAX_KEYS_def)
qed

text \<open>The keys 0 and 9 are held and the letter A is pressed: slots 0, 4, 9.\<close>

theorem report_buffer_invariant_witness:
  "length (keys (kb_reset\<lparr>keys := (keys kb_reset)[0 := True, 9 := True]\<rparr>))
     = HID_KEYBOARD_KEYS \<and>
   convert_hid_keyboard_event env_alloc
     (kb_reset\<lparr>keys := (keys kb_reset)[0 := True, 9 := True]\<rparr>)
     (stack_hid_event env_alloc) (key_event SDL_KEYDOWN SDL_SCANCODE_A KMOD_NONE) =
     Inr (True, kb_reset\<lparr>keys := (keys kb_reset)[0 := True, 9 := True, 4 := True]\<rparr>,
          \<lparr>from_accessory_id = 0, buffer = Some [0, 0, 0, 4, 9, 0, 0, 0],
           buffer_size = 8\<rparr>) \<and>
   length (pressed_keys ((keys kb_reset)[0 := True, 9 := True, 4 := True]))
     \<le> HID_KEYBOARD_MAX_KEYS \<and>
   length [0, 0, 0, 4, 9, 0, 0, 0 :: u8] = 8 \<and>
   [0, 0, 0, 4, 9, 0, 0, 0 :: u8] ! 1 = 0 \<and>
   distinct (filter (\<lambda>b. b \<noteq> 0) (key_slots [0, 0, 0, 4, 9, 0, 0, 0]))"
proof -
  let ?kb = "kb_reset\<lparr>keys := (keys kb_reset)[0 := True, 9 := True]\<rparr>"
  let ?kb' = "kb_reset\<lparr>keys := (keys kb_reset)[0 := True, 9 := True, 4 := True]\<rparr>"
  let ?h = "\<lparr>from_accessory_id = 0, buffer = Some [0, 0, 0, 4, 9, 0, 0, 0],
             buffer_size = 8\<rparr>"
  have h1: "length (keys ?kb) = HID_KEYBOARD_KEYS"
    by (simp add: kb_reset_def)
  have h2: "convert_hid_keyboard_event env_alloc ?kb (stack_hid_event env_alloc)
      (key_event SDL_KEYDOWN SDL_SCANCODE_A KMOD_NONE) = Inr (True, ?kb', ?h)"
    by code_simp
  have h3: "length (pressed_keys (keys ?kb')) \<le> HID_KEYBOARD_MAX_KEYS"
    by code_simp
  from report_buffer_invariant [OF h1 h2] h3
  have "length [0, 0, 0, 4, 9, 0, 0, 0 :: u8] = 8 \<and>
      [0, 0, 0, 4, 9, 0, 0, 0 :: u8] ! 1 = 0 \<and>
      distinct (filter (\<lambda>b. b \<noteq> 0) (key_slots [0, 0, 0, 4, 9, 0, 0, 0]))"
    by simp
  with h1 h2 h3 show ?thesis by simp
qed

subsection \<open>C9: the report descriptor\<close>

text \<open>
  C9. The report descriptor is a constant sequence of 63 bytes (written out below, with
  \<^verbatim>\<open>HID_KEYBOARD_KEYS - 1\<close> and \<^verbatim>\<open>HID_KEYBOARD_MAX_KEYS\<close> evaluated), and every call
  of \<^verbatim>\<open>hid_keyboard_init\<close> makes exactly one registration call, with the accessory id,
  these bytes and the length 63, whatever the keyboard, the transport and the
  environment are; so two invocations register identical bytes.
\<close>

theorem report_descriptor_constant:
  "keyboard_report_desc =
     [0x05, 0x01, 0x09, 0x06, 0xA1, 0x01, 0x05, 0x07, 0x19, 0xE0, 0x29, 0xE7, 0x15, 0x00,
      0x25, 0x01, 0x75, 0x01, 0x95, 0x08, 0x81, 0x02, 0x75, 0x08, 0x95, 0x01, 0x81, 0x01,
      0x05, 0x08, 0x19, 0x01, 0x29, 0x05, 0x75, 0x01, 0x95, 0x05, 0x91, 0x02, 0x75, 0x03,
      0x95, 0x01, 0x91, 0x01, 0x05, 0x07, 0x19, 0x00, 0x29, 0x65, 0x15, 0x00, 0x25, 0x65,
      0x75, 0x08, 0x95, 0x06, 0x81, 0x00, 0xC0] \<and>
   length keyboard_report_desc = 63 \<and>
   aoa (snd (hid_keyboard_init env kb a)) =
     a\<lparr>setup_calls := setup_calls a @
        [(HID_KEYBOARD_ACCESSORY_ID, keyboard_report_desc, 63)]\<rparr> \<and>
   last (setup_calls (aoa (snd (hid_keyboard_init env kb a)))) =
     last (setup_calls (aoa (snd (hid_keyboard_init env' kb' a'))))"
proof -
  have reg: "aoa (snd (hid_keyboard_init e k t)) =
      t\<lparr>setup_calls := setup_calls t @
        [(HID_KEYBOARD_ACCESSORY_ID, keyboard_report_desc, 63)]\<rparr>" for e k t
    by (simp add: hid_keyboard_init_def aoa_setup_hid_def Let_def
        length_keyboard_report_desc)
  have "last (setup_calls (aoa (snd (hid_keyboard_init e k t)))) =
      (HID_KEYBOARD_ACCESSORY_ID, keyboard_report_desc, 63)" for e k t
    by (simp add: reg)
  then show ?thesis
    using keyboard_report_desc_bytes length_keyboard_report_desc reg by simp
qed

subsection \<open>C10: allocation failure\<close>

text \<open>
  C10. When \<^verbatim>\<open>malloc\<close> fails, \<^verbatim>\<open>convert_hid_keyboard_event\<close> returns false with
  the keyboard exactly as it was (every table entry, and the transport) and a
  \<^verbatim>\<open>NULL\<close> buffer, and \<^verbatim>\<open>sc_key_processor_process_key\<close> hands nothing to the
  transport: it returns the keyboard it was given. (A negative scancode of an event that
  is not a repeat fails the assertion of \<^verbatim>\<open>hid_keyboard_convert_event\<close> first.)
\<close>

theorem allocation_failure_leaves_table:
  assumes "\<not> malloc_ok env"
  shows "convert_hid_keyboard_event env kb hid_ev event =
           Inr (False, kb, hid_ev\<lparr>buffer := None\<rparr>) \<and>
         sc_key_processor_process_key env kb event =
           (if ev_repeat event = 0 \<and> keysym_scancode event < 0
            then Inl AssertionFailed else Inr kb)"
  using assms by (simp add: convert_hid_keyboard_event_eq process_key_eq)

text \<open>The letter A is pressed while there is no memory.\<close>

theorem allocation_failure_leaves_table_witness:
  "\<not> malloc_ok env_nomem \<and>
   convert_hid_keyboard_event env_nomem kb_reset (stack_hid_event env_nomem)
     (key_event SDL_KEYDOWN SDL_SCANCODE_A KMOD_NONE) =
     Inr (False, kb_reset, (stack_hid_event env_nomem)\<lparr>buffer := None\<rparr>) \<and>
   sc_key_processor_process_key env_nomem kb_reset
     (key_event SDL_KEYDOWN SDL_SCANCODE_A KMOD_NONE) = Inr kb_reset"
proof -
  have h: "\<not> malloc_ok env_nomem"
    by (simp add: env_nomem_def)
  from allocation_failure_leaves_table [OF h, of kb_reset "stack_hid_event env_nomem"
      "key_event SDL_KEYDOWN SDL_SCANCODE_A KMOD_NONE"] h
  show ?thesis by (simp add: key_event_def SDL_SCANCODE_A_def)
qed

end
